theory Spec2Isabelle
  imports Complex_Main "HOL-Library.Word"
begin

unbundle bit_operations_syntax

section \<open>Single-precision arithmetic\<close>

text \<open>
  The source computes in C++ \<^verbatim>\<open>float\<close>. What \<^verbatim>\<open>+\<close>, \<^verbatim>\<open>-\<close>, \<^verbatim>\<open>*\<close>,
  \<^verbatim>\<open>/\<close>, \<^verbatim>\<open>>\<close> and the library's \<^verbatim>\<open>pow\<close> return on a \<^verbatim>\<open>float\<close> is fixed by
  the platform, not by this repository, so the embedding takes the arithmetic as a
  parameter: a record of the operations the source uses, over a carrier \<open>'f\<close> of
  float values. Each operation of the source is one application of the record's
  operation, in the order the source writes them. What is proved for an arbitrary \<open>A\<close>
  holds whatever the platform's rounding, infinities and NaNs do. What is true only of
  one particular rounding (that a sum of weights does not overflow, that a quotient is
  not a NaN) is outside this development.

  \<^item> \<open>flit A q\<close> is the \<^verbatim>\<open>float\<close> literal written as the decimal \<open>q\<close> in the
    source (\<^verbatim>\<open>0.f\<close>, \<^verbatim>\<open>1.f\<close>, \<^verbatim>\<open>0.877322257f\<close>);
  \<^item> \<open>fof_int A k\<close> is the conversion of the \<^verbatim>\<open>int\<close> \<open>k\<close> to \<^verbatim>\<open>float\<close>;
  \<^item> \<open>fpow A x k\<close> is \<^verbatim>\<open>pow(x, k)\<close> for a \<^verbatim>\<open>float\<close> \<open>x\<close> and an \<^verbatim>\<open>int\<close>
    \<open>k\<close>, converted back to \<^verbatim>\<open>float\<close> by the \<^verbatim>\<open>return\<close>;
  \<^item> \<open>fgt A x y\<close> is the comparison \<^verbatim>\<open>x > y\<close>.
\<close>

record 'f float_ops =
  flit :: "rat \<Rightarrow> 'f"
  fof_int :: "int \<Rightarrow> 'f"
  fadd :: "'f \<Rightarrow> 'f \<Rightarrow> 'f"
  fsub :: "'f \<Rightarrow> 'f \<Rightarrow> 'f"
  fmul :: "'f \<Rightarrow> 'f \<Rightarrow> 'f"
  fdiv :: "'f \<Rightarrow> 'f \<Rightarrow> 'f"
  fgt :: "'f \<Rightarrow> 'f \<Rightarrow> bool"
  fpow :: "'f \<Rightarrow> int \<Rightarrow> 'f"

text \<open>
  Exact arithmetic on the rationals is one such arithmetic. It agrees with IEEE
  single precision wherever every operand and every intermediate result is a float
  (small integers and dyadic fractions) and no division is by zero, and it is the
  arithmetic the concrete evaluations below run on.
\<close>

definition exact_ops :: "rat float_ops" where
  "exact_ops = \<lparr> flit = (\<lambda>q. q), fof_int = rat_of_int,
      fadd = (\<lambda>x y. x + y), fsub = (\<lambda>x y. x - y),
      fmul = (\<lambda>x y. x * y), fdiv = (\<lambda>x y. x / y),
      fgt = (\<lambda>x y. y < x), fpow = (\<lambda>x k. x powi k) \<rparr>"

section \<open>Combined waveform model parameters\<close>

text \<open>
  \<^verbatim>\<open>typedef float (*distance_t)(float, int)\<close>: a pointer to one of the three distance
  functions of the file, so a value of this type names one of them.
\<close>

datatype distance_t = exponentialDistance_fn | linearDistance_fn | quadraticDistance_fn

record 'f CombinedWaveformConfig =
  distFunc :: distance_t
  threshold :: 'f
  topbit :: 'f
  pulsestrength :: 'f
  distance1 :: 'f
  distance2 :: 'f

subsection \<open>Distance functions\<close>

text \<open>
  A C++ \<^verbatim>\<open>int\<close> has 32 bits. \<open>int32\<close> is the value an \<^verbatim>\<open>int\<close> operation leaves when
  its mathematical result is \<open>k\<close> (two's complement wrap-around); the negation \<^verbatim>\<open>-i\<close>
  and the product \<^verbatim>\<open>i*i\<close> are computed in \<^verbatim>\<open>int\<close> before they become a
  \<^verbatim>\<open>float\<close>.
\<close>

definition int32 :: "int \<Rightarrow> int" where
  "int32 k = (k + 2 ^ 31) mod 2 ^ 32 - 2 ^ 31"

definition exponentialDistance :: "'f float_ops \<Rightarrow> 'f \<Rightarrow> int \<Rightarrow> 'f" where
  "exponentialDistance A distance i = fpow A distance (int32 (- i))"

definition linearDistance :: "'f float_ops \<Rightarrow> 'f \<Rightarrow> int \<Rightarrow> 'f" where
  "linearDistance A distance i =
     fdiv A (flit A 1) (fadd A (flit A 1) (fmul A (fof_int A i) distance))"

definition quadraticDistance :: "'f float_ops \<Rightarrow> 'f \<Rightarrow> int \<Rightarrow> 'f" where
  "quadraticDistance A distance i =
     fdiv A (flit A 1) (fadd A (flit A 1) (fmul A (fof_int A (int32 (i * i))) distance))"

text \<open>Calling through the function pointer.\<close>

fun call_distance :: "'f float_ops \<Rightarrow> distance_t \<Rightarrow> 'f \<Rightarrow> int \<Rightarrow> 'f" where
  "call_distance A exponentialDistance_fn d i = exponentialDistance A d i"
| "call_distance A linearDistance_fn d i = linearDistance A d i"
| "call_distance A quadraticDistance_fn d i = quadraticDistance A d i"

subsection \<open>The fitted parameters\<close>

text \<open>
  The three arrays \<^verbatim>\<open>configAverage\<close>, \<^verbatim>\<open>configWeak\<close> and \<^verbatim>\<open>configStrong\<close>, each
  \<^verbatim>\<open>[2][5]\<close>: row 0 for the 6581, row 1 for the 8580; the columns are TS, PT, PS, PTS
  and NP. The literals are the source's, digit for digit.
\<close>

definition configAverage :: "'f float_ops \<Rightarrow> 'f CombinedWaveformConfig list list" where
  "configAverage A =
    [ [ \<lparr> distFunc = exponentialDistance_fn, threshold = flit A 0.877322257, topbit = flit A 1.11349654,
          pulsestrength = flit A 0, distance1 = flit A 2.14537621, distance2 = flit A 9.08618164 \<rparr>,
        \<lparr> distFunc = linearDistance_fn, threshold = flit A 0.941692829, topbit = flit A 1,
          pulsestrength = flit A 1.80072665, distance1 = flit A 0.033124879, distance2 = flit A 0.232303441 \<rparr>,
        \<lparr> distFunc = linearDistance_fn, threshold = flit A 1.66494179, topbit = flit A 1.03760982,
          pulsestrength = flit A 5.62705326, distance1 = flit A 0.291590303, distance2 = flit A 0.283631504 \<rparr>,
        \<lparr> distFunc = linearDistance_fn, threshold = flit A 1.09762526, topbit = flit A 0.975265801,
          pulsestrength = flit A 1.52196741, distance1 = flit A 0.151528224, distance2 = flit A 0.841949463 \<rparr>,
        \<lparr> distFunc = exponentialDistance_fn, threshold = flit A 0.96, topbit = flit A 1,
          pulsestrength = flit A 2.5, distance1 = flit A 1.1, distance2 = flit A 1.2 \<rparr> ],
      [ \<lparr> distFunc = exponentialDistance_fn, threshold = flit A 0.841851234, topbit = flit A 1.09233654,
          pulsestrength = flit A 0, distance1 = flit A 1.85262764, distance2 = flit A 6.22224379 \<rparr>,
        \<lparr> distFunc = exponentialDistance_fn, threshold = flit A 0.929835618, topbit = flit A 1,
          pulsestrength = flit A 1.12836814, distance1 = flit A 1.10453653, distance2 = flit A 1.48065746 \<rparr>,
        \<lparr> distFunc = quadraticDistance_fn, threshold = flit A 0.911938608, topbit = flit A 0.996440411,
          pulsestrength = flit A 1.2278074, distance1 = flit A 0.000117214302, distance2 = flit A 0.18948476 \<rparr>,
        \<lparr> distFunc = exponentialDistance_fn, threshold = flit A 0.932317019, topbit = flit A 1.03892183,
          pulsestrength = flit A 1.2068342, distance1 = flit A 0.891974986, distance2 = flit A 1.42451835 \<rparr>,
        \<lparr> distFunc = exponentialDistance_fn, threshold = flit A 0.95, topbit = flit A 1,
          pulsestrength = flit A 1.15, distance1 = flit A 1, distance2 = flit A 1.45 \<rparr> ] ]"

definition configWeak :: "'f float_ops \<Rightarrow> 'f CombinedWaveformConfig list list" where
  "configWeak A =
    [ [ \<lparr> distFunc = exponentialDistance_fn, threshold = flit A 0.886832297, topbit = flit A 1,
          pulsestrength = flit A 0, distance1 = flit A 2.14438701, distance2 = flit A 9.51839447 \<rparr>,
        \<lparr> distFunc = linearDistance_fn, threshold = flit A 1.01262534, topbit = flit A 1,
          pulsestrength = flit A 2.46070528, distance1 = flit A 0.0537485816, distance2 = flit A 0.0986242667 \<rparr>,
        \<lparr> distFunc = linearDistance_fn, threshold = flit A 2.14896345, topbit = flit A 1.0216713,
          pulsestrength = flit A 10.5400085, distance1 = flit A 0.244498149, distance2 = flit A 0.126134038 \<rparr>,
        \<lparr> distFunc = linearDistance_fn, threshold = flit A 1.29061747, topbit = flit A 0.9754318,
          pulsestrength = flit A 3.15377498, distance1 = flit A 0.0968349651, distance2 = flit A 0.318573922 \<rparr>,
        \<lparr> distFunc = exponentialDistance_fn, threshold = flit A 0.96, topbit = flit A 1,
          pulsestrength = flit A 2.5, distance1 = flit A 1.1, distance2 = flit A 1.2 \<rparr> ],
      [ \<lparr> distFunc = exponentialDistance_fn, threshold = flit A 0.816124022, topbit = flit A 1.31208789,
          pulsestrength = flit A 0, distance1 = flit A 1.92347884, distance2 = flit A 2.35027933 \<rparr>,
        \<lparr> distFunc = exponentialDistance_fn, threshold = flit A 0.917997837, topbit = flit A 1,
          pulsestrength = flit A 1.01248944, distance1 = flit A 1.05761552, distance2 = flit A 1.37529826 \<rparr>,
        \<lparr> distFunc = quadraticDistance_fn, threshold = flit A 0.970038712, topbit = flit A 1.00844693,
          pulsestrength = flit A 1.30298805, distance1 = flit A 0.0097996993, distance2 = flit A 0.146854922 \<rparr>,
        \<lparr> distFunc = exponentialDistance_fn, threshold = flit A 0.941834152, topbit = flit A 1.06401193,
          pulsestrength = flit A 0.991132736, distance1 = flit A 0.995310068, distance2 = flit A 1.41105855 \<rparr>,
        \<lparr> distFunc = exponentialDistance_fn, threshold = flit A 0.95, topbit = flit A 1,
          pulsestrength = flit A 1.15, distance1 = flit A 1, distance2 = flit A 1.45 \<rparr> ] ]"

definition configStrong :: "'f float_ops \<Rightarrow> 'f CombinedWaveformConfig list list" where
  "configStrong A =
    [ [ \<lparr> distFunc = exponentialDistance_fn, threshold = flit A 0.000637792516, topbit = flit A 1.56725872,
          pulsestrength = flit A 0, distance1 = flit A 0.00036806846, distance2 = flit A 1.51800942 \<rparr>,
        \<lparr> distFunc = linearDistance_fn, threshold = flit A 0.924824238, topbit = flit A 1,
          pulsestrength = flit A 1.96749473, distance1 = flit A 0.0891806409, distance2 = flit A 0.234794483 \<rparr>,
        \<lparr> distFunc = linearDistance_fn, threshold = flit A 1.2328074, topbit = flit A 0.73079139,
          pulsestrength = flit A 3.9719491, distance1 = flit A 0.00156516861, distance2 = flit A 0.314677745 \<rparr>,
        \<lparr> distFunc = linearDistance_fn, threshold = flit A 1.08558261, topbit = flit A 0.857638359,
          pulsestrength = flit A 1.52781796, distance1 = flit A 0.152927235, distance2 = flit A 1.02657032 \<rparr>,
        \<lparr> distFunc = exponentialDistance_fn, threshold = flit A 0.96, topbit = flit A 1,
          pulsestrength = flit A 2.5, distance1 = flit A 1.1, distance2 = flit A 1.2 \<rparr> ],
      [ \<lparr> distFunc = exponentialDistance_fn, threshold = flit A 0.89762634, topbit = flit A 56.7594185,
          pulsestrength = flit A 0, distance1 = flit A 7.68995237, distance2 = flit A 12.0754194 \<rparr>,
        \<lparr> distFunc = exponentialDistance_fn, threshold = flit A 0.867885351, topbit = flit A 1,
          pulsestrength = flit A 1.4511894, distance1 = flit A 1.07057536, distance2 = flit A 1.43333757 \<rparr>,
        \<lparr> distFunc = quadraticDistance_fn, threshold = flit A 0.89255774, topbit = flit A 1.2253896,
          pulsestrength = flit A 1.75615835, distance1 = flit A 0.0245045591, distance2 = flit A 0.12982437 \<rparr>,
        \<lparr> distFunc = linearDistance_fn, threshold = flit A 0.91124934, topbit = flit A 0.963609755,
          pulsestrength = flit A 0.909965038, distance1 = flit A 1.07445884, distance2 = flit A 1.82399702 \<rparr>,
        \<lparr> distFunc = exponentialDistance_fn, threshold = flit A 0.95, topbit = flit A 1,
          pulsestrength = flit A 1.15, distance1 = flit A 1, distance2 = flit A 1.45 \<rparr> ] ]"

section \<open>The pulldown calculator\<close>

text \<open>
  \<^verbatim>\<open>short\<close> is a 16-bit word, \<^verbatim>\<open>unsigned int\<close> a 32-bit word. The arrays \<^verbatim>\<open>bit\<close>,
  \<^verbatim>\<open>pulldown\<close> and \<^verbatim>\<open>distancetable\<close> are lists; the loops over \<^verbatim>\<open>0..11\<close> run over
  \<open>[0..<12]\<close> in the source's order.
\<close>

type_synonym short = "16 word"
type_synonym uint = "32 word"

text \<open>
  First loop: \<^verbatim>\<open>bit[i] = (accumulator & (1u << i)) != 0 ? 1.f : 0.f\<close>, then
  \<^verbatim>\<open>bit[11] *= topbit\<close>.
\<close>

definition acc_bits :: "'f float_ops \<Rightarrow> 'f \<Rightarrow> uint \<Rightarrow> 'f list" where
  "acc_bits A tb accumulator =
     (let bit0 = map (\<lambda>i. if accumulator AND push_bit i 1 \<noteq> 0 then flit A 1 else flit A 0) [0..<12]
      in bit0[11 := fmul A (bit0 ! 11) tb])"

text \<open>
  One pass of the inner loop over \<^verbatim>\<open>cb\<close>, on the pair \<open>(avg, n)\<close>. The index
  \<^verbatim>\<open>sb - cb + 12\<close> is computed in \<^verbatim>\<open>int\<close>; it lies between 1 and 23, inside the
  25 cells of the array the caller passes.
\<close>

definition weigh :: "'f float_ops \<Rightarrow> 'f list \<Rightarrow> 'f list \<Rightarrow> nat \<Rightarrow> nat \<Rightarrow> 'f \<times> 'f \<Rightarrow> 'f \<times> 'f" where
  "weigh A distancetable bits sb cb s =
     (if cb = sb then s
      else
        (let weight = distancetable ! nat (int sb - int cb + 12)
         in (fadd A (fst s) (fmul A (fsub A (flit A 1) (bits ! cb)) weight),
             fadd A (snd s) weight)))"

text \<open>The body of the loop over \<^verbatim>\<open>sb\<close>: the value stored in \<^verbatim>\<open>pulldown[sb]\<close>.\<close>

definition pulldown_at :: "'f float_ops \<Rightarrow> 'f list \<Rightarrow> 'f list \<Rightarrow> 'f \<Rightarrow> nat \<Rightarrow> 'f" where
  "pulldown_at A distancetable bits ps sb =
     (let s = fold (weigh A distancetable bits sb) [0..<12] (flit A 0, flit A 0);
          avg = fsub A (fst s) ps
      in fdiv A avg (snd s))"

text \<open>
  \<^verbatim>\<open>value |= 1u << i\<close> on a \<^verbatim>\<open>short\<close>: the \<^verbatim>\<open>short\<close> is promoted (sign extended)
  to 32 bits, or-ed with the \<^verbatim>\<open>unsigned\<close> mask, and the result is cut to 16 bits.
\<close>

definition or_bit :: "short \<Rightarrow> nat \<Rightarrow> short" where
  "or_bit v i = ucast ((scast v :: uint) OR push_bit i 1)"

definition predict :: "'f float_ops \<Rightarrow> 'f list \<Rightarrow> 'f list \<Rightarrow> 'f \<Rightarrow> nat \<Rightarrow> short \<Rightarrow> short" where
  "predict A bits pulldown thr i v =
     (let bitValue = (if fgt A (bits ! i) (flit A 0) then fsub A (flit A 1) (pulldown ! i)
                      else flit A 0)
      in if fgt A bitValue thr then or_bit v i else v)"

text \<open>
  The parameters \<^verbatim>\<open>topbit\<close>, \<^verbatim>\<open>pulsestrength\<close> and \<^verbatim>\<open>threshold\<close> are written \<open>tb\<close>,
  \<open>ps\<close> and \<open>thr\<close> (the long names are the fields of the parameter record), and
  the array \<^verbatim>\<open>bit\<close> is written \<open>bits\<close> (\<open>bit\<close> is HOL's bit test).
\<close>

definition calculatePulldown :: "'f float_ops \<Rightarrow> 'f list \<Rightarrow> 'f \<Rightarrow> 'f \<Rightarrow> 'f \<Rightarrow> uint \<Rightarrow> short" where
  "calculatePulldown A distancetable tb ps thr accumulator =
     (let bits = acc_bits A tb accumulator;
          pulldown = map (pulldown_at A distancetable bits ps) [0..<12]
      in fold (predict A bits pulldown thr) [0..<12] 0)"

section \<open>The basic waveform table\<close>

text \<open>
  Modelled from the spec: the class \<^verbatim>\<open>matrix_t\<close> (declared in a header that is not
  part of the sources at hand). The specification calls both tables ``a 2-D table'' of
  sample values, each a ``signed integer, 12 significant bits''; the source stores
  \<^verbatim>\<open>short\<close> values in it and indexes it as \<^verbatim>\<open>m[row][column]\<close>. So a matrix is a list
  of rows of \<^verbatim>\<open>short\<close>; \<open>matrix_new x y\<close> is the matrix \<^verbatim>\<open>matrix_t(x, y)\<close> before
  anything is stored in it (every cell is written before it is read), and
  \<open>matrix_set m r c v\<close> is the assignment \<^verbatim>\<open>m[r][c] = v\<close>.
\<close>

type_synonym matrix_t = "short list list"

definition matrix_new :: "nat \<Rightarrow> nat \<Rightarrow> matrix_t" where
  "matrix_new x y = replicate x (replicate y 0)"

definition matrix_set :: "matrix_t \<Rightarrow> nat \<Rightarrow> nat \<Rightarrow> short \<Rightarrow> matrix_t" where
  "matrix_set m r c v = m[r := (m ! r)[c := v]]"

definition triXor :: "uint \<Rightarrow> uint" where
  "triXor val = push_bit 1 (if val AND 0x800 = 0 then val else val XOR 0xfff)"

text \<open>
  The body of the constructor's loop. \<^verbatim>\<open>static_cast<short>\<close> cuts the 32-bit value
  to 16 bits; in \<^verbatim>\<open>saw & (saw << 1)\<close> the \<^verbatim>\<open>short\<close> is promoted to \<^verbatim>\<open>int\<close> and the
  result is cut to 16 bits again by the store.
\<close>

definition wf_fill :: "nat \<Rightarrow> matrix_t \<Rightarrow> matrix_t" where
  "wf_fill idx wftable =
     (let saw = (ucast (of_nat idx :: uint) :: short);
          tri = (ucast (triXor (of_nat idx)) :: short);
          w0 = matrix_set wftable 0 idx 0xfff;
          w1 = matrix_set w0 1 idx tri;
          w2 = matrix_set w1 2 idx saw
      in matrix_set w2 3 idx (ucast ((scast saw :: uint) AND push_bit 1 (scast saw :: uint))))"

text \<open>The member \<^verbatim>\<open>wftable\<close> as the constructor \<^verbatim>\<open>WaveformCalculator()\<close> leaves it.\<close>

definition WaveformCalculator :: matrix_t where
  "WaveformCalculator = fold wf_fill [0..<4096] (matrix_new 4 4096)"

section \<open>The pulldown table and its cache\<close>

text \<open>
  Modelled from the spec: the enumerations \<^verbatim>\<open>ChipModel\<close> and \<^verbatim>\<open>CombinedWaveforms\<close>
  (declared in a header that is not part of the sources at hand). The specification has
  ``one of two supported silicon revisions'' and a variance class of ``three levels'',
  weak, average and strong; the enumerators' names are the ones the source uses. A C++
  enumeration can carry a value that is none of its enumerators, and the source has a
  branch for it (\<^verbatim>\<open>default:\<close>, and the \<^verbatim>\<open>else\<close> of \<^verbatim>\<open>model == MOS6581\<close>);
  \<open>ChipModel_other\<close> and \<open>CombinedWaveforms_other\<close> are those values.
\<close>

datatype ChipModel = MOS6581 | MOS8580 | ChipModel_other int

datatype CombinedWaveforms = AVERAGE | WEAK | STRONG | CombinedWaveforms_other int

text \<open>
  \<^verbatim>\<open>const CombinedWaveformConfig* cfgArray\<close> points to row \<^verbatim>\<open>modelIdx\<close> of one of the
  three arrays. The cache is keyed by this pointer, not by what it points to.
\<close>

datatype cfg_ptr = configAverage_row nat | configWeak_row nat | configStrong_row nat

fun cfg_deref :: "'f float_ops \<Rightarrow> cfg_ptr \<Rightarrow> 'f CombinedWaveformConfig list" where
  "cfg_deref A (configAverage_row m) = configAverage A ! m"
| "cfg_deref A (configWeak_row m) = configWeak A ! m"
| "cfg_deref A (configStrong_row m) = configStrong A ! m"

text \<open>
  \<^verbatim>\<open>float distancetable[12 * 2 + 1]\<close>: cell 12 is set to \<^verbatim>\<open>1.f\<close>, then the loop
  \<^verbatim>\<open>for (int i = 12; i > 0; i--)\<close> stores two cells on each pass. The array is not
  initialised in the source; the model starts from cells \<^verbatim>\<open>0.f\<close>, and all 25 cells
  are stored before the table is used. The case order of \<open>select_cfgArray\<close> below is
  the order of the source's \<^verbatim>\<open>switch\<close>, whose \<^verbatim>\<open>default:\<close> label stands on the
  \<^verbatim>\<open>AVERAGE\<close> case.
\<close>

definition set_distances :: "'f float_ops \<Rightarrow> 'f CombinedWaveformConfig \<Rightarrow> nat \<Rightarrow> 'f list \<Rightarrow> 'f list" where
  "set_distances A cfg i distancetable =
     (let d1 = distancetable[12 - i := call_distance A (distFunc cfg) (distance1 cfg) (int i)]
      in d1[12 + i := call_distance A (distFunc cfg) (distance2 cfg) (int i)])"

definition build_distancetable :: "'f float_ops \<Rightarrow> 'f CombinedWaveformConfig \<Rightarrow> 'f list" where
  "build_distancetable A cfg =
     fold (set_distances A cfg) (rev [1..<13]) ((replicate 25 (flit A 0))[12 := flit A 1])"

text \<open>The body of the loop over \<^verbatim>\<open>wav\<close>, and the whole table.\<close>

definition fill_row :: "'f float_ops \<Rightarrow> 'f CombinedWaveformConfig list \<Rightarrow> nat \<Rightarrow> matrix_t \<Rightarrow> matrix_t" where
  "fill_row A cfgArray wav pdTable =
     (let cfg = cfgArray ! wav;
          distancetable = build_distancetable A cfg
      in fold (\<lambda>idx pd. matrix_set pd wav idx
                 (calculatePulldown A distancetable (topbit cfg) (pulsestrength cfg)
                    (threshold cfg) (of_nat idx)))
           [0..<4096] pdTable)"

definition build_pdTable :: "'f float_ops \<Rightarrow> 'f CombinedWaveformConfig list \<Rightarrow> matrix_t" where
  "build_pdTable A cfgArray = fold (fill_row A cfgArray) [0..<5] (matrix_new 5 4096)"

text \<open>
  \<^verbatim>\<open>PULLDOWN_CACHE\<close> is a \<^verbatim>\<open>std::map\<close> from the pointer to the table: a finite map.
  \<^verbatim>\<open>lower_bound\<close> followed by the test that the key found is not greater than
  \<^verbatim>\<open>cfgArray\<close> is the lookup of \<^verbatim>\<open>cfgArray\<close>; \<^verbatim>\<open>emplace_hint\<close> inserts the new pair.
  The function returns the address of the table inside the map's node; nodes of a
  \<^verbatim>\<open>std::map\<close> never move, so that address is named by the node's key. The model
  returns it together with the cache after the call. The lock is held for the whole
  call and has no effect on a sequential run.
\<close>

type_synonym cw_cache_t = "cfg_ptr \<rightharpoonup> matrix_t"

definition select_cfgArray :: "ChipModel \<Rightarrow> CombinedWaveforms \<Rightarrow> cfg_ptr" where
  "select_cfgArray model cws =
     (let modelIdx = (if model = MOS6581 then 0 else 1)
      in case cws of
           CombinedWaveforms_other k \<Rightarrow> configAverage_row modelIdx
         | AVERAGE \<Rightarrow> configAverage_row modelIdx
         | WEAK \<Rightarrow> configWeak_row modelIdx
         | STRONG \<Rightarrow> configStrong_row modelIdx)"

definition buildPulldownTable ::
    "'f float_ops \<Rightarrow> ChipModel \<Rightarrow> CombinedWaveforms \<Rightarrow> cw_cache_t \<Rightarrow> cfg_ptr \<times> cw_cache_t" where
  "buildPulldownTable A model cws PULLDOWN_CACHE =
     (let cfgArray = select_cfgArray model cws
      in case PULLDOWN_CACHE cfgArray of
           Some t \<Rightarrow> (cfgArray, PULLDOWN_CACHE)
         | None \<Rightarrow>
             (let pdTable = build_pdTable A (cfg_deref A cfgArray)
              in (cfgArray, PULLDOWN_CACHE(cfgArray \<mapsto> pdTable))))"

text \<open>What the returned pointer points to.\<close>

definition table_at :: "cfg_ptr \<times> cw_cache_t \<Rightarrow> matrix_t option" where
  "table_at r = snd r (fst r)"

text \<open>
  \<^verbatim>\<open>PULLDOWN_CACHE\<close> is a global that only \<open>buildPulldownTable\<close> writes: it is empty
  when the program starts, and every later state is the state a call has left. The
  arithmetic \<open>A\<close> is the platform's and the same in every call.
\<close>

inductive reachable :: "'f float_ops \<Rightarrow> cw_cache_t \<Rightarrow> bool" for A :: "'f float_ops" where
  initial: "reachable A Map.empty"
| call: "reachable A c \<Longrightarrow> reachable A (snd (buildPulldownTable A model cws c))"

code_pred reachable .

section \<open>The specification's formula for the pulldown\<close>

text \<open>
  The definitions of this section follow the words of the specification, not the
  source; the claims compare \<open>calculatePulldown\<close> with them.

  \<^item> \<open>spec_bit\<close>: ``\<open>bit[i]\<close> is 1.0 if accumulator bit \<open>i\<close> is set else 0.0 and
    \<open>bit[11]\<close> is additionally multiplied by \<open>topbit\<close>'';
  \<^item> \<open>others sb\<close>: ``all \<open>cb \<noteq> sb\<close>'', in increasing order;
  \<^item> \<open>fsum\<close>: a sum of floats, added from left to right starting from \<open>0.0\<close>
    (float addition is not associative, so the order is part of the formula);
  \<^item> \<open>spec_pulldown\<close>: ``sum over all \<open>cb \<noteq> sb\<close> of
    \<open>(1 - bit[cb]) * distancetable[sb - cb + 12]\<close>, minus \<open>pulsestrength\<close>, divided by the
    sum over all \<open>cb \<noteq> sb\<close> of \<open>distancetable[sb - cb + 12]\<close>'';
  \<^item> \<open>spec_output\<close>: ``the source bit was 1 (\<open>bit[sb] > 0\<close>) and
    \<open>(1 - pulldown[sb]) > threshold\<close>''.
\<close>

definition fsum :: "'f float_ops \<Rightarrow> 'f list \<Rightarrow> 'f" where
  "fsum A xs = foldl (fadd A) (flit A 0) xs"

definition others :: "nat \<Rightarrow> nat list" where
  "others sb = filter (\<lambda>cb. cb \<noteq> sb) [0..<12]"

definition spec_bit :: "'f float_ops \<Rightarrow> 'f \<Rightarrow> uint \<Rightarrow> nat \<Rightarrow> 'f" where
  "spec_bit A tb accumulator i =
     (let b = (if bit accumulator i then flit A 1 else flit A 0)
      in if i = 11 then fmul A b tb else b)"

definition spec_pulldown :: "'f float_ops \<Rightarrow> 'f list \<Rightarrow> 'f \<Rightarrow> 'f \<Rightarrow> uint \<Rightarrow> nat \<Rightarrow> 'f" where
  "spec_pulldown A distancetable tb ps accumulator sb =
     fdiv A
       (fsub A
          (fsum A (map (\<lambda>cb. fmul A (fsub A (flit A 1) (spec_bit A tb accumulator cb))
                               (distancetable ! nat (int sb - int cb + 12)))
                     (others sb)))
          ps)
       (fsum A (map (\<lambda>cb. distancetable ! nat (int sb - int cb + 12)) (others sb)))"

definition spec_output :: "'f float_ops \<Rightarrow> 'f list \<Rightarrow> 'f \<Rightarrow> 'f \<Rightarrow> 'f \<Rightarrow> uint \<Rightarrow> nat \<Rightarrow> bool" where
  "spec_output A distancetable tb ps thr accumulator sb =
     (fgt A (spec_bit A tb accumulator sb) (flit A 0) \<and>
      fgt A (fsub A (flit A 1) (spec_pulldown A distancetable tb ps accumulator sb)) thr)"

section \<open>Auxiliary definitions for the proofs\<close>

text \<open>
  The shapes of the two tables, the cell the constructor stores at a place of the basic
  table, the cell \<open>buildPulldownTable\<close> stores at a place of the pulldown table, and
  the test under which \<open>calculatePulldown\<close> sets bit \<open>i\<close> of its result.
\<close>

definition wf_shape :: "matrix_t \<Rightarrow> bool" where
  "wf_shape m = (length m = 4 \<and> length (m ! 0) = 4096 \<and> length (m ! 1) = 4096
     \<and> length (m ! 2) = 4096 \<and> length (m ! 3) = 4096)"

definition wf_entry :: "nat \<Rightarrow> nat \<Rightarrow> short" where
  "wf_entry r idx =
     (if r = 0 then 0xfff
      else if r = 1 then ucast (triXor (of_nat idx))
      else if r = 2 then ucast (of_nat idx :: uint)
      else ucast ((scast (ucast (of_nat idx :: uint) :: short) :: uint)
             AND push_bit 1 (scast (ucast (of_nat idx :: uint) :: short) :: uint)))"

definition pd_shape :: "matrix_t \<Rightarrow> bool" where
  "pd_shape m = (length m = 5 \<and> list_all (\<lambda>r. length r = 4096) m)"

definition pd_entry :: "'f float_ops \<Rightarrow> 'f CombinedWaveformConfig list \<Rightarrow> nat \<Rightarrow> nat \<Rightarrow> short" where
  "pd_entry A cfgArray wav idx =
     calculatePulldown A (build_distancetable A (cfgArray ! wav)) (topbit (cfgArray ! wav))
       (pulsestrength (cfgArray ! wav)) (threshold (cfgArray ! wav)) (of_nat idx)"

definition fires :: "'f float_ops \<Rightarrow> 'f list \<Rightarrow> 'f list \<Rightarrow> 'f \<Rightarrow> nat \<Rightarrow> bool" where
  "fires A bits pulldown thr i =
     fgt A (if fgt A (bits ! i) (flit A 0) then fsub A (flit A 1) (pulldown ! i) else flit A 0) thr"

section \<open>Lists and matrices filled by a loop\<close>

lemma fold_update_length: "length (fold (\<lambda>i r. r[i := f i]) xs r) = length r"
  by (induction xs arbitrary: r) auto

lemma fold_update_nth:
  "j < length r \<Longrightarrow> fold (\<lambda>i r. r[i := f i]) xs r ! j = (if j \<in> set xs then f j else r ! j)"
  by (induction xs arbitrary: r) (auto simp: nth_list_update)

lemma fold_matrix_set:
  "wav < length pd \<Longrightarrow>
   fold (\<lambda>idx pd. matrix_set pd wav idx (f idx)) xs pd =
   pd[wav := fold (\<lambda>idx r. r[idx := f idx]) xs (pd ! wav)]"
  by (induction xs arbitrary: pd) (auto simp: matrix_set_def)

section \<open>The basic waveform table: proofs\<close>

lemma wf_shape_new: "wf_shape (matrix_new 4 4096)"
  by (simp add: wf_shape_def matrix_new_def)

lemma wf_shape_fill: "wf_shape m \<Longrightarrow> wf_shape (wf_fill idx m)"
  by (simp add: wf_shape_def wf_fill_def matrix_set_def Let_def nth_list_update)

lemma wf_fill_nth:
  "wf_shape m \<Longrightarrow> r < 4 \<Longrightarrow> j < 4096 \<Longrightarrow>
   wf_fill idx m ! r ! j = (if j = idx then wf_entry r j else m ! r ! j)"
  apply (cases "r = 0"; cases "r = 1"; cases "r = 2"; cases "r = 3")
  apply (simp_all add: wf_shape_def wf_fill_def matrix_set_def Let_def nth_list_update wf_entry_def)
  done

lemma fold_wf_fill_nth:
  "wf_shape m \<Longrightarrow> r < 4 \<Longrightarrow> j < 4096 \<Longrightarrow>
   fold wf_fill xs m ! r ! j = (if j \<in> set xs then wf_entry r j else m ! r ! j)"
proof (induction xs arbitrary: m)
  case Nil
  then show ?case by simp
next
  case (Cons x xs)
  have "wf_shape (wf_fill x m)" using Cons.prems(1) by (rule wf_shape_fill)
  then show ?case using Cons by (simp add: wf_fill_nth)
qed

lemma WaveformCalculator_nth:
  "r < 4 \<Longrightarrow> phase < 4096 \<Longrightarrow> WaveformCalculator ! r ! phase = wf_entry r phase"
  by (simp add: WaveformCalculator_def fold_wf_fill_nth wf_shape_new)

text \<open>Reading the 16-bit and 32-bit words of the constructor as integers.\<close>

lemma sint16_of_int: "0 \<le> k \<Longrightarrow> k < 2 ^ 15 \<Longrightarrow> sint (word_of_int k :: short) = k"
  by (simp add: sint_sbintrunc' signed_take_bit_int_eq_self)

lemma ucast_32_16_of_int: "(ucast (word_of_int k :: uint) :: short) = word_of_int k"
  by (simp add: ucast_down_wi is_down)

lemma scast_16_32_of_int:
  "0 \<le> k \<Longrightarrow> k < 2 ^ 15 \<Longrightarrow> (scast (word_of_int k :: short) :: uint) = word_of_int k"
  by (simp add: scast_eq sint16_of_int)

lemma test_bit11: "((of_nat phase :: uint) AND 0x800 = 0) = (\<not> bit phase 11)"
proof -
  have "(0x800 :: uint) = 2 ^ 11" by simp
  then have "((of_nat phase :: uint) AND 0x800 = 0) = (\<not> bit (of_nat phase :: uint) 11)"
    by (simp only: and_exp_eq_0_iff_not_bit)
  then show ?thesis by (simp add: bit_of_nat_iff)
qed

lemma triXor_of_nat:
  "triXor (of_nat phase) =
     word_of_int (if \<not> bit phase 11 then push_bit 1 (int phase) else push_bit 1 (int phase XOR 0xFFF))"
proof -
  have a: "(of_nat phase :: uint) = word_of_int (int phase)" by simp
  have b: "(0xfff :: uint) = word_of_int 0xFFF" by simp
  show ?thesis
    unfolding triXor_def test_bit11
    by (cases "bit phase 11")
      (simp_all only: a b word_wi_log_defs push_bit_of_int if_True if_False not_not
         not_True_eq_False not_False_eq_True)
qed

lemma xor_fff_bounds: "phase < 4096 \<Longrightarrow> 0 \<le> int phase XOR 0xFFF \<and> int phase XOR 0xFFF < 4096"
proof -
  assume "phase < 4096"
  then have "int phase XOR 0xFFF < 2 ^ 12"
    by (intro XOR_upper) simp_all
  then show ?thesis by simp
qed

lemma and_shift_bounds: "0 \<le> int phase AND push_bit 1 (int phase) \<and> int phase AND push_bit 1 (int phase) \<le> int phase"
  by (simp add: AND_upper1)

lemma wf_entry_sint:
  assumes "phase < 4096"
  shows "sint (wf_entry 0 phase) = 4095"
    and "sint (wf_entry 1 phase) = (if \<not> bit phase 11 then push_bit 1 (int phase) else push_bit 1 (int phase XOR 0xFFF))"
    and "sint (wf_entry 2 phase) = int phase"
    and "sint (wf_entry 3 phase) = (int phase AND push_bit 1 (int phase))"
proof -
  show "sint (wf_entry 0 phase) = 4095" by (simp add: wf_entry_def)
  have bnd: "0 \<le> int phase XOR 0xFFF" "int phase XOR 0xFFF < 4096"
    using xor_fff_bounds [OF assms] by simp_all
  have p: "int phase < 4096" using assms by simp
  show "sint (wf_entry 1 phase) = (if \<not> bit phase 11 then push_bit 1 (int phase) else push_bit 1 (int phase XOR 0xFFF))"
    using bnd p by (simp add: wf_entry_def triXor_of_nat ucast_32_16_of_int sint16_of_int push_bit_eq_mult)
  have a: "(of_nat phase :: uint) = word_of_int (int phase)" by simp
  have saw: "(ucast (of_nat phase :: uint) :: short) = word_of_int (int phase)"
    by (simp only: a ucast_32_16_of_int)
  show "sint (wf_entry 2 phase) = int phase"
    using p by (simp add: wf_entry_def saw sint16_of_int del: of_int_of_nat_eq)
  have sc: "(scast (word_of_int (int phase) :: short) :: uint) = word_of_int (int phase)"
    using p by (intro scast_16_32_of_int) simp_all
  have "wf_entry 3 phase = word_of_int (int phase AND push_bit 1 (int phase))"
    unfolding wf_entry_def
    by (simp only: saw sc push_bit_of_int word_wi_log_defs ucast_32_16_of_int) simp
  then show "sint (wf_entry 3 phase) = (int phase AND push_bit 1 (int phase))"
    using and_shift_bounds [of phase] p by (simp add: sint16_of_int)
qed

section \<open>The pulldown calculator: proofs\<close>

text \<open>The bits of the result, one loop at a time.\<close>

lemma bit_or_bit: "bit (or_bit v i) j \<longleftrightarrow> j < 16 \<and> (bit v j \<or> j = i)"
  by (auto simp add: or_bit_def bit_ucast_iff bit_or_iff bit_word_scast_iff bit_exp_iff
       dest: bit_imp_le_length)

lemma bit_predict:
  "bit (predict A bits pulldown thr i v) j \<longleftrightarrow> bit v j \<or> (j < 16 \<and> j = i \<and> fires A bits pulldown thr i)"
  by (auto simp add: predict_def fires_def Let_def bit_or_bit dest: bit_imp_le_length)

lemma bit_fold_predict:
  "bit (fold (predict A bits pulldown thr) xs v) j \<longleftrightarrow>
     bit v j \<or> (j < 16 \<and> j \<in> set xs \<and> fires A bits pulldown thr j)"
  by (induction xs arbitrary: v) (auto simp add: bit_predict)

lemma bit_calculatePulldown:
  "bit (calculatePulldown A distancetable tb ps thr accumulator) j \<longleftrightarrow>
     j < 12 \<and> fires A (acc_bits A tb accumulator)
        (map (pulldown_at A distancetable (acc_bits A tb accumulator) ps) [0..<12]) thr j"
  by (auto simp add: calculatePulldown_def Let_def bit_fold_predict)

text \<open>A \<^verbatim>\<open>short\<close> with no bit above bit 11 is a value in \<open>[0, 4095]\<close>.\<close>

lemma low_bits_range:
  fixes w :: short
  assumes "\<And>j. bit w j \<Longrightarrow> j < 12"
  shows "0 \<le> sint w \<and> sint w \<le> 4095"
proof -
  have "take_bit 12 w = w"
    by (rule bit_eqI) (auto simp add: bit_take_bit_iff assms)
  then have "uint w = take_bit 12 (uint w)"
    by (metis unsigned_take_bit_eq)
  then have u: "uint w < 2 ^ 12"
    by (metis take_bit_int_less_exp)
  have "sint w = signed_take_bit 15 (uint w)"
    by (simp add: sint_uint)
  also have "\<dots> = uint w"
  proof (rule signed_take_bit_int_eq_self)
    have "(- (2 ^ 15) :: int) \<le> 0" by simp
    also have "0 \<le> uint w" by simp
    finally show "- (2 ^ 15) \<le> uint w" .
    show "uint w < 2 ^ 15" using u by simp
  qed
  finally show ?thesis using u by simp
qed

text \<open>The accumulator is read through its bits 0 to 11 only.\<close>

lemma test_acc_bit: "i < 32 \<Longrightarrow> ((accumulator :: uint) AND push_bit i 1 \<noteq> 0) = bit accumulator i"
  by (simp add: and_exp_eq_0_iff_not_bit)

lemma acc_bits_low12: "acc_bits A tb (accumulator AND 0xFFF) = acc_bits A tb accumulator"
proof -
  have m: "(0xFFF :: uint) = mask 12" by (simp add: mask_eq_exp_minus_1)
  have "\<And>i. i < 12 \<Longrightarrow> bit (accumulator AND 0xFFF) i = bit accumulator i"
    unfolding m by (simp add: bit_and_iff bit_mask_iff)
  then have "\<And>i. i < 12 \<Longrightarrow>
      ((accumulator AND 0xFFF) AND push_bit i 1 \<noteq> 0) = (accumulator AND push_bit i 1 \<noteq> 0)"
    by (simp only: test_acc_bit)
  then have "map (\<lambda>i. if (accumulator AND 0xFFF) AND push_bit i 1 \<noteq> 0 then flit A 1 else flit A 0) [0..<12]
     = map (\<lambda>i. if accumulator AND push_bit i 1 \<noteq> 0 then flit A 1 else flit A (0::rat)) [0..<12]"
    by (intro map_cong refl) simp
  then show ?thesis 
    unfolding acc_bits_def by (simp only:)
qed

lemma calculatePulldown_low12:
  "calculatePulldown A distancetable tb ps thr (accumulator AND 0xFFF) =
   calculatePulldown A distancetable tb ps thr accumulator"
  by (simp only: calculatePulldown_def acc_bits_low12)

lemma calculatePulldown_range:
  "0 \<le> sint (calculatePulldown A distancetable tb ps thr accumulator) \<and>
   sint (calculatePulldown A distancetable tb ps thr accumulator) \<le> 4095"
  by (rule low_bits_range) (simp add: bit_calculatePulldown)

text \<open>The loops compute the formula of the specification.\<close>

lemma acc_bits_nth:
  assumes "i < 12"
  shows "acc_bits A tb accumulator ! i = spec_bit A tb accumulator i"
proof -
  let ?f = "\<lambda>i. if accumulator AND push_bit i 1 \<noteq> 0 then flit A 1 else flit A 0"
  have f: "?f k = (if bit accumulator k then flit A 1 else flit A 0)" if "k < 12" for k
    using that by (simp only: test_acc_bit)
  have n: "map ?f [0..<12] ! k = ?f k" if "k < 12" for k
    using that by (simp only: nth_map length_upt nth_upt; simp)
  have "acc_bits A tb accumulator ! i
      = (if i = 11 then fmul A (map ?f [0..<12] ! 11) tb else map ?f [0..<12] ! i)"
    using assms unfolding acc_bits_def Let_def
    by (simp only: nth_list_update length_map length_upt; simp)
  also have "\<dots> = (if i = 11 then fmul A (?f 11) tb else ?f i)"
    using assms by (simp only: n; simp)
  also have "\<dots> = spec_bit A tb accumulator i"
    using assms unfolding spec_bit_def Let_def by (simp only: f; simp)
  finally show ?thesis .
qed

lemma fold_weigh:
  "fold (weigh A distancetable bits sb) xs s =
     (foldl (fadd A) (fst s)
        (map (\<lambda>cb. fmul A (fsub A (flit A 1) (bits ! cb)) (distancetable ! nat (int sb - int cb + 12)))
           (filter (\<lambda>cb. cb \<noteq> sb) xs)),
      foldl (fadd A) (snd s)
        (map (\<lambda>cb. distancetable ! nat (int sb - int cb + 12)) (filter (\<lambda>cb. cb \<noteq> sb) xs)))"
  by (induction xs arbitrary: s) (simp_all add: weigh_def Let_def)

lemma pulldown_at_spec:
  "pulldown_at A distancetable (acc_bits A tb accumulator) ps sb =
     spec_pulldown A distancetable tb ps accumulator sb"
proof -
  have "map (\<lambda>cb. fmul A (fsub A (flit A 1) (acc_bits A tb accumulator ! cb))
                (distancetable ! nat (int sb - int cb + 12))) (others sb)
      = map (\<lambda>cb. fmul A (fsub A (flit A 1) (spec_bit A tb accumulator cb))
                (distancetable ! nat (int sb - int cb + 12))) (others sb)"
    by (rule map_cong) (simp_all add: others_def acc_bits_nth)
  then show ?thesis
    by (simp only: pulldown_at_def spec_pulldown_def Let_def fold_weigh fsum_def fst_conv snd_conv
          others_def [symmetric])
qed

lemma fires_spec:
  "sb < 12 \<Longrightarrow>
   fires A (acc_bits A tb accumulator)
     (map (pulldown_at A distancetable (acc_bits A tb accumulator) ps) [0..<12]) thr sb =
   fgt A (if fgt A (spec_bit A tb accumulator sb) (flit A 0)
          then fsub A (flit A 1) (spec_pulldown A distancetable tb ps accumulator sb)
          else flit A 0) thr"
  by (simp add: fires_def acc_bits_nth pulldown_at_spec del: upt_Suc)

lemma bit_calculatePulldown_spec:
  "bit (calculatePulldown A distancetable tb ps thr accumulator) sb \<longleftrightarrow>
     sb < 12 \<and>
     fgt A (if fgt A (spec_bit A tb accumulator sb) (flit A 0)
            then fsub A (flit A 1) (spec_pulldown A distancetable tb ps accumulator sb)
            else flit A 0) thr"
  using fires_spec [of sb A tb accumulator distancetable ps thr]
  by (auto simp add: bit_calculatePulldown simp del: upt_Suc)

lemma calc_horner:
  "calculatePulldown A distancetable tb ps thr accumulator =
     horner_sum of_bool 2 (map (\<lambda>sb. fgt A (if fgt A (spec_bit A tb accumulator sb) (flit A 0)
            then fsub A (flit A 1) (spec_pulldown A distancetable tb ps accumulator sb)
            else flit A 0) thr) [0..<12])"
  by (rule bit_eqI) (auto simp add: bit_calculatePulldown_spec bit_horner_sum_bit_word_iff simp del: upt_Suc)

lemma others_eval: "others 2 = [0, 1, 3, 4, 5, 6, 7, 8, 9, 10, 11]"
  by code_simp

section \<open>The distance table: proofs\<close>

lemma set_distances_length: "length (set_distances A cfg i dt) = length dt"
  by (simp add: set_distances_def Let_def)

lemma fold_set_distances_length: "length (fold (set_distances A cfg) xs dt) = length dt"
  by (induction xs arbitrary: dt) (simp_all add: set_distances_length)

lemma fold_set_distances_nth:
  "k < 25 \<Longrightarrow> length dt = 25 \<Longrightarrow> set xs \<subseteq> {1..12} \<Longrightarrow>
   fold (set_distances A cfg) xs dt ! k =
     (if k < 12 \<and> 12 - k \<in> set xs then call_distance A (distFunc cfg) (distance1 cfg) (int (12 - k))
      else if 12 < k \<and> k - 12 \<in> set xs then call_distance A (distFunc cfg) (distance2 cfg) (int (k - 12))
      else dt ! k)"
proof (induction xs arbitrary: dt)
  case Nil
  then show ?case by simp
next
  case (Cons x xs)
  have x: "1 \<le> x" "x \<le> 12" using Cons.prems(3) by simp_all
  have len: "length (set_distances A cfg x dt) = 25"
    using Cons.prems(2) by (simp add: set_distances_length)
  have xs: "set xs \<subseteq> {1..12}" using Cons.prems(3) by simp
  have step: "set_distances A cfg x dt ! j =
     (if j = 12 + x then call_distance A (distFunc cfg) (distance2 cfg) (int x)
      else if j = 12 - x then call_distance A (distFunc cfg) (distance1 cfg) (int x)
      else dt ! j)" if "j < 25" for j
    using that Cons.prems(2) x by (simp add: set_distances_def Let_def nth_list_update)
  show ?case
    using Cons.IH [OF Cons.prems(1) len xs] x Cons.prems(1)
    by (auto simp add: step)
qed

lemma build_distancetable_length: "length (build_distancetable A cfg) = 25"
  by (simp add: build_distancetable_def fold_set_distances_length)

lemma set_rev_1_13: "set (rev [1..<13]) = {1..12}"
  by auto

lemma build_distancetable_nth:
  assumes "k < 25"
  shows "build_distancetable A cfg ! k =
     (if k < 12 then call_distance A (distFunc cfg) (distance1 cfg) (int (12 - k))
      else if 12 < k then call_distance A (distFunc cfg) (distance2 cfg) (int (k - 12))
      else flit A 1)"
proof -
  let ?dt = "(replicate 25 (flit A 0))[12 := flit A 1]"
  have len: "length ?dt = 25" by simp
  have sub: "set (rev [1..<13]) \<subseteq> {1..12}" by auto
  have mem: "j \<in> set (rev [1..<13]) \<longleftrightarrow> 1 \<le> j \<and> j \<le> 12" for j by auto
  have init: "?dt ! 12 = flit A 1" by simp
  show ?thesis
    unfolding build_distancetable_def fold_set_distances_nth [OF assms len sub] mem
    using assms init by (cases "k = 12") auto
qed

section \<open>The pulldown table: proofs\<close>

lemma pd_shape_new: "pd_shape (matrix_new 5 4096)"
  by (simp add: pd_shape_def matrix_new_def list_all_length)

lemma pd_shape_nth: "pd_shape m \<Longrightarrow> w < 5 \<Longrightarrow> length (m ! w) = 4096"
  by (simp add: pd_shape_def list_all_length)

lemma fill_row_eq:
  "pd_shape pd \<Longrightarrow> wav < 5 \<Longrightarrow>
   fill_row A cfgArray wav pd =
     pd[wav := fold (\<lambda>idx r. r[idx := pd_entry A cfgArray wav idx]) [0..<4096] (pd ! wav)]"
  unfolding fill_row_def Let_def pd_entry_def
  by (rule fold_matrix_set) (simp add: pd_shape_def)

lemma pd_shape_fill_row: "pd_shape pd \<Longrightarrow> wav < 5 \<Longrightarrow> pd_shape (fill_row A cfgArray wav pd)"
  by (simp add: fill_row_eq)
     (simp add: pd_shape_def list_all_length nth_list_update fold_update_length)

lemma fill_row_nth:
  assumes "pd_shape pd" "wav < 5" "w < 5" "j < 4096"
  shows "fill_row A cfgArray wav pd ! w ! j = (if w = wav then pd_entry A cfgArray w j else pd ! w ! j)"
proof -
  have l: "length pd = 5" using assms(1) by (simp add: pd_shape_def)
  have r: "length (pd ! wav) = 4096" using assms(1,2) by (rule pd_shape_nth)
  show ?thesis
    using assms l r
    by (simp add: fill_row_eq nth_list_update fold_update_nth del: upt_Suc)
qed

lemma fold_fill_row_nth:
  "pd_shape pd \<Longrightarrow> set xs \<subseteq> {0..<5} \<Longrightarrow> w < 5 \<Longrightarrow> j < 4096 \<Longrightarrow>
   fold (fill_row A cfgArray) xs pd ! w ! j =
     (if w \<in> set xs then pd_entry A cfgArray w j else pd ! w ! j)"
proof (induction xs arbitrary: pd)
  case Nil
  then show ?case by simp
next
  case (Cons x xs)
  have x: "x < 5" using Cons.prems(2) by simp
  have sh: "pd_shape (fill_row A cfgArray x pd)"
    using Cons.prems(1) x by (rule pd_shape_fill_row)
  have xs: "set xs \<subseteq> {0..<5}" using Cons.prems(2) by simp
  show ?case
    using Cons.IH [OF sh xs Cons.prems(3,4)] fill_row_nth [OF Cons.prems(1) x Cons.prems(3,4)]
    by auto
qed

lemma build_pdTable_nth:
  "wav < 5 \<Longrightarrow> idx < 4096 \<Longrightarrow> build_pdTable A cfgArray ! wav ! idx = pd_entry A cfgArray wav idx"
  unfolding build_pdTable_def
  by (subst fold_fill_row_nth) (simp_all add: pd_shape_new del: upt_Suc)

section \<open>The cache: proofs\<close>

lemma buildPulldownTable_fst: "fst (buildPulldownTable A model cws c) = select_cfgArray model cws"
  by (simp add: buildPulldownTable_def Let_def split: option.split)

lemma buildPulldownTable_hit:
  "c (select_cfgArray model cws) = Some t \<Longrightarrow>
   buildPulldownTable A model cws c = (select_cfgArray model cws, c)"
  by (simp add: buildPulldownTable_def Let_def)

lemma buildPulldownTable_miss:
  "c (select_cfgArray model cws) = None \<Longrightarrow>
   buildPulldownTable A model cws c =
     (select_cfgArray model cws,
      c(select_cfgArray model cws \<mapsto> build_pdTable A (cfg_deref A (select_cfgArray model cws))))"
  by (simp add: buildPulldownTable_def Let_def)

lemma buildPulldownTable_stores:
  "\<exists>t. snd (buildPulldownTable A model cws c) (select_cfgArray model cws) = Some t"
  by (cases "c (select_cfgArray model cws)")
     (simp_all add: buildPulldownTable_hit buildPulldownTable_miss)

lemma table_at_Some: "\<exists>t. table_at (buildPulldownTable A model cws c) = Some t"
  using buildPulldownTable_stores [of A model cws c]
  by (simp add: table_at_def buildPulldownTable_fst)

lemma buildPulldownTable_again:
  "buildPulldownTable A' model cws (snd (buildPulldownTable A model cws c)) =
   buildPulldownTable A model cws c"
proof -
  obtain t where t: "snd (buildPulldownTable A model cws c) (select_cfgArray model cws) = Some t"
    using buildPulldownTable_stores by blast
  have "buildPulldownTable A' model cws (snd (buildPulldownTable A model cws c)) =
        (select_cfgArray model cws, snd (buildPulldownTable A model cws c))"
    using t by (rule buildPulldownTable_hit)
  also have "\<dots> = buildPulldownTable A model cws c"
    using buildPulldownTable_fst [of A model cws c]
    by (cases "buildPulldownTable A model cws c") simp
  finally show ?thesis .
qed

text \<open>In a reachable cache every table is the one built for its key.\<close>

lemma reachable_built:
  "reachable A c \<Longrightarrow> c k = Some t \<Longrightarrow> t = build_pdTable A (cfg_deref A k)"
proof (induction arbitrary: k t rule: reachable.induct)
  case initial
  then show ?case by simp
next
  case (call c model cws)
  show ?case
  proof (cases "c (select_cfgArray model cws)")
    case None
    then show ?thesis
      using call by (auto simp add: buildPulldownTable_miss split: if_splits)
  next
    case (Some u)
    then show ?thesis
      using call by (simp add: buildPulldownTable_hit)
  qed
qed

lemma table_at_built:
  assumes "reachable A c"
  shows "table_at (buildPulldownTable A model cws c) =
           Some (build_pdTable A (cfg_deref A (select_cfgArray model cws)))"
proof -
  obtain t where t: "table_at (buildPulldownTable A model cws c) = Some t"
    using table_at_Some by blast
  have r: "reachable A (snd (buildPulldownTable A model cws c))"
    using assms by (rule reachable.call)
  have "snd (buildPulldownTable A model cws c) (select_cfgArray model cws) = Some t"
    using t by (simp add: table_at_def buildPulldownTable_fst)
  with r have "t = build_pdTable A (cfg_deref A (select_cfgArray model cws))"
    by (rule reachable_built)
  then show ?thesis using t by simp
qed

lemma pd_entry_range: "0 \<le> sint (pd_entry A cfgArray wav idx) \<and> sint (pd_entry A cfgArray wav idx) \<le> 4095"
  unfolding pd_entry_def by (rule calculatePulldown_range)

lemma built_table_range:
  assumes "reachable A c" "wav < 5" "idx < 4096"
  shows "\<exists>t. table_at (buildPulldownTable A model cws c) = Some t \<and>
           0 \<le> sint (t ! wav ! idx) \<and> sint (t ! wav ! idx) \<le> 4095"
  using pd_entry_range [of A "cfg_deref A (select_cfgArray model cws)" wav idx]
  by (simp add: table_at_built [OF assms(1)] build_pdTable_nth [OF assms(2,3)])

section \<open>Integer arithmetic of the distance functions\<close>

lemma int32_small: "- (2 ^ 31) \<le> k \<Longrightarrow> k < 2 ^ 31 \<Longrightarrow> int32 k = k"
  by (simp add: int32_def)

lemma fgt_if: "fgt A (if c then x else y) thr = (if c then fgt A x thr else fgt A y thr)"
  by simp

section \<open>The claims\<close>

text \<open>
  C1 (as amended). For every accumulator value and every output bit position \<open>sb\<close> in
  \<open>0..11\<close>, \<open>calculatePulldown\<close> computes the pulldown fraction of the
  specification: the sum over all \<open>cb \<noteq> sb\<close> of
  \<open>(1 - bit[cb]) * distancetable[sb - cb + 12]\<close>, minus \<open>pulsestrength\<close>, divided by
  the sum over all \<open>cb \<noteq> sb\<close> of \<open>distancetable[sb - cb + 12]\<close>, where \<open>bit[i]\<close> is
  1.0 if accumulator bit \<open>i\<close> is set and 0.0 otherwise, and \<open>bit[11]\<close> is multiplied by
  \<open>topbit\<close>. Output bit \<open>sb\<close> is set iff \<open>sb < 12\<close> and the value
  \<open>bit[sb] > 0 ? 1 - pulldown[sb] : 0\<close> is greater than \<open>threshold\<close>; when
  \<open>0 > threshold\<close> does not hold this is: iff the source bit was 1 (\<open>bit[sb] > 0\<close>) and
  \<open>1 - pulldown[sb] > threshold\<close>. The returned integer is made of these 12 bits.
\<close>

theorem calculatePulldown_formula:
  "(sb < 12 \<longrightarrow>
      pulldown_at A distancetable (acc_bits A tb accumulator) ps sb =
        spec_pulldown A distancetable tb ps accumulator sb \<and>
      acc_bits A tb accumulator ! sb = spec_bit A tb accumulator sb) \<and>
   (bit (calculatePulldown A distancetable tb ps thr accumulator) sb \<longleftrightarrow>
      sb < 12 \<and>
      (if fgt A (spec_bit A tb accumulator sb) (flit A 0)
       then fgt A (fsub A (flit A 1) (spec_pulldown A distancetable tb ps accumulator sb)) thr
       else fgt A (flit A 0) thr)) \<and>
   (\<not> fgt A (flit A 0) thr \<longrightarrow>
      (bit (calculatePulldown A distancetable tb ps thr accumulator) sb \<longleftrightarrow>
         sb < 12 \<and> spec_output A distancetable tb ps thr accumulator sb)) \<and>
   calculatePulldown A distancetable tb ps thr accumulator =
     horner_sum of_bool 2
       (map (\<lambda>sb. if fgt A (spec_bit A tb accumulator sb) (flit A 0)
                  then fgt A (fsub A (flit A 1) (spec_pulldown A distancetable tb ps accumulator sb)) thr
                  else fgt A (flit A 0) thr) [0..<12])"
proof -
  have c1: "sb < 12 \<longrightarrow>
      pulldown_at A distancetable (acc_bits A tb accumulator) ps sb =
        spec_pulldown A distancetable tb ps accumulator sb \<and>
      acc_bits A tb accumulator ! sb = spec_bit A tb accumulator sb"
    by (simp add: pulldown_at_spec acc_bits_nth)
  have c2: "bit (calculatePulldown A distancetable tb ps thr accumulator) sb \<longleftrightarrow>
      sb < 12 \<and>
      (if fgt A (spec_bit A tb accumulator sb) (flit A 0)
       then fgt A (fsub A (flit A 1) (spec_pulldown A distancetable tb ps accumulator sb)) thr
       else fgt A (flit A 0) thr)"
    by (simp only: bit_calculatePulldown_spec fgt_if)
  have c3: "\<not> fgt A (flit A 0) thr \<longrightarrow>
      (bit (calculatePulldown A distancetable tb ps thr accumulator) sb \<longleftrightarrow>
         sb < 12 \<and> spec_output A distancetable tb ps thr accumulator sb)"
    unfolding c2 spec_output_def by auto
  have c4: "calculatePulldown A distancetable tb ps thr accumulator =
     horner_sum of_bool 2
       (map (\<lambda>sb. if fgt A (spec_bit A tb accumulator sb) (flit A 0)
                  then fgt A (fsub A (flit A 1) (spec_pulldown A distancetable tb ps accumulator sb)) thr
                  else fgt A (flit A 0) thr) [0..<12])"
    by (simp only: calc_horner fgt_if)
  from c1 c2 c3 c4 show ?thesis by (intro conjI)
qed

text \<open>
  The amended C1 at a concrete input: all weights 1, \<open>topbit = 1\<close>,
  \<open>pulsestrength = 0\<close>, \<open>threshold = 1/2\<close>, accumulator \<open>0xABC\<close>, bit 2. Five of the
  other eleven bits are clear, so the fraction is \<open>5/11\<close> and the bit stays set.
\<close>

theorem calculatePulldown_formula_witness:
  "\<not> fgt exact_ops (flit exact_ops 0) (1 / 2) \<and>
   spec_pulldown exact_ops (replicate 25 1) 1 0 0xABC 2 = 5 / 11 \<and>
   spec_output exact_ops (replicate 25 1) 1 0 (1 / 2) 0xABC 2 \<and>
   bit (calculatePulldown exact_ops (replicate 25 1) 1 0 (1 / 2) 0xABC) 2"
proof -
  have pd: "spec_pulldown exact_ops (replicate 25 1) 1 0 0xABC 2 = 5 / 11"
    by (simp add: spec_pulldown_def spec_bit_def exact_ops_def others_eval fsum_def)
  have out: "spec_output exact_ops (replicate 25 1) 1 0 (1 / 2) 0xABC 2"
    by (simp add: spec_output_def pd) (simp add: spec_bit_def exact_ops_def)
  have thr: "\<not> fgt exact_ops (flit exact_ops 0) (1 / 2)"
    by (simp add: exact_ops_def)
  have "bit (calculatePulldown exact_ops (replicate 25 1) 1 0 (1 / 2) 0xABC) 2 \<longleftrightarrow>
          (2::nat) < 12 \<and> spec_output exact_ops (replicate 25 1) 1 0 (1 / 2) 0xABC 2"
    using calculatePulldown_formula [where sb = 2 and A = exact_ops and distancetable = "replicate 25 1"
        and tb = 1 and ps = 0 and accumulator = "0xABC" and thr = "1 / 2"] thr
    by blast
  then have "bit (calculatePulldown exact_ops (replicate 25 1) 1 0 (1 / 2) 0xABC) 2"
    using out by simp
  then show ?thesis
    using pd out thr by (intro conjI)
qed

text \<open>
  C1 as stated fails for a negative threshold: with \<open>threshold = -1\<close> and accumulator
  0, output bit 0 is set although the source bit is clear (the source compares
  \<open>0.f > threshold\<close> for a clear bit).
\<close>

theorem calculatePulldown_negative_threshold:
  "bit (calculatePulldown exact_ops (replicate 25 1) 1 0 (- 1) 0) 0 \<and>
   \<not> spec_output exact_ops (replicate 25 1) 1 0 (- 1) 0 0"
  by (simp add: bit_calculatePulldown_spec spec_output_def spec_bit_def exact_ops_def)

text \<open>
  C3. The 25-entry distance table that \<open>buildPulldownTable\<close> builds for a parameter
  entry and hands to the pulldown calculator has \<open>1.0\<close> at index 12, and for each \<open>i\<close>
  in \<open>1..12\<close> the entry's distance function applied to \<open>(distance1, i)\<close> at index
  \<open>12 - i\<close> and applied to \<open>(distance2, i)\<close> at index \<open>12 + i\<close>.
\<close>

theorem distancetable_entries:
  "length (build_distancetable A cfg) = 25 \<and>
   build_distancetable A cfg ! 12 = flit A 1 \<and>
   (1 \<le> i \<and> i \<le> 12 \<longrightarrow>
      build_distancetable A cfg ! (12 - i) = call_distance A (distFunc cfg) (distance1 cfg) (int i) \<and>
      build_distancetable A cfg ! (12 + i) = call_distance A (distFunc cfg) (distance2 cfg) (int i)) \<and>
   (wav < 5 \<and> idx < 4096 \<longrightarrow>
      build_pdTable A cfgArray ! wav ! idx =
        calculatePulldown A (build_distancetable A (cfgArray ! wav)) (topbit (cfgArray ! wav))
          (pulsestrength (cfgArray ! wav)) (threshold (cfgArray ! wav)) (of_nat idx))"
proof -
  have c1: "length (build_distancetable A cfg) = 25"
    by (rule build_distancetable_length)
  have c2: "build_distancetable A cfg ! 12 = flit A 1"
    by (simp add: build_distancetable_nth)
  have c3: "1 \<le> i \<and> i \<le> 12 \<longrightarrow>
      build_distancetable A cfg ! (12 - i) = call_distance A (distFunc cfg) (distance1 cfg) (int i) \<and>
      build_distancetable A cfg ! (12 + i) = call_distance A (distFunc cfg) (distance2 cfg) (int i)"
    by (auto simp add: build_distancetable_nth)
  have c4: "wav < 5 \<and> idx < 4096 \<longrightarrow>
      build_pdTable A cfgArray ! wav ! idx =
        calculatePulldown A (build_distancetable A (cfgArray ! wav)) (topbit (cfgArray ! wav))
          (pulsestrength (cfgArray ! wav)) (threshold (cfgArray ! wav)) (of_nat idx)"
    by (simp add: build_pdTable_nth pd_entry_def)
  from c1 c2 c3 c4 show ?thesis by (intro conjI)
qed

text \<open>
  C3 at the PT entry of the 6581 average set (linear distance function) and \<open>i = 3\<close>,
  in exact arithmetic.
\<close>

theorem distancetable_entries_witness:
  "(1::nat) \<le> 3 \<and> (3::nat) \<le> 12 \<and>
   build_distancetable exact_ops (configAverage exact_ops ! 0 ! 1) ! 9 = 1 / (1 + 3 * 0.033124879) \<and>
   build_distancetable exact_ops (configAverage exact_ops ! 0 ! 1) ! 15 = 1 / (1 + 3 * 0.232303441)"
  using distancetable_entries [where i = 3 and A = exact_ops and cfg = "configAverage exact_ops ! 0 ! 1"]
  by (simp add: configAverage_def linearDistance_def exact_ops_def)

text \<open>
  C4. In the basic waveform table built by the constructor, for every phase in
  \<open>0..4095\<close>: row 0 is 4095; row 1 (triangle) is the phase shifted left by 1 when
  phase bit 11 is clear and (phase XOR 0xFFF) shifted left by 1 when it is set; row 2
  (sawtooth) is the phase; row 3 is the sawtooth value AND itself shifted left by 1.
\<close>

theorem basic_waveform_table:
  "phase < 4096 \<Longrightarrow>
     sint (WaveformCalculator ! 0 ! phase) = 4095 \<and>
     sint (WaveformCalculator ! 1 ! phase) =
       (if \<not> bit phase 11 then push_bit 1 (int phase) else push_bit 1 (int phase XOR 0xFFF)) \<and>
     sint (WaveformCalculator ! 2 ! phase) = int phase \<and>
     sint (WaveformCalculator ! 3 ! phase) = (int phase AND push_bit 1 (int phase))"
  by (simp only: WaveformCalculator_nth wf_entry_sint; simp add: bit_Suc_0_iff)

theorem basic_waveform_table_witness:
  "(3000::nat) < 4096 \<and>
   sint (WaveformCalculator ! 0 ! 3000) = 4095 \<and>
   sint (WaveformCalculator ! 1 ! 3000) = 2190 \<and>
   sint (WaveformCalculator ! 2 ! 3000) = 3000 \<and>
   sint (WaveformCalculator ! 3 ! 3000) = 816"
  using basic_waveform_table [of 3000] by (simp add: bit_Suc_0_iff)

text \<open>
  C5 (as amended). Golden values of the basic table: triangle at phase 0 is 0,
  triangle at phase 2048 is 4094, sawtooth at phase 100 is 100, and constant-high is
  4095 at every phase.
\<close>

theorem golden_values:
  "sint (WaveformCalculator ! 1 ! 0) = 0 \<and>
   sint (WaveformCalculator ! 1 ! 2048) = 4094 \<and>
   sint (WaveformCalculator ! 2 ! 100) = 100 \<and>
   (phase < 4096 \<longrightarrow> sint (WaveformCalculator ! 0 ! phase) = 4095)"
proof -
  have a: "sint (WaveformCalculator ! 1 ! 0) = 0"
    by (simp only: WaveformCalculator_nth wf_entry_sint; simp add: bit_Suc_0_iff)
  have b: "sint (WaveformCalculator ! 1 ! 2048) = 4094"
    by (simp only: WaveformCalculator_nth wf_entry_sint; simp add: bit_Suc_0_iff)
  have c: "sint (WaveformCalculator ! 2 ! 100) = 100"
    by (simp only: WaveformCalculator_nth wf_entry_sint; simp add: bit_Suc_0_iff)
  have d: "phase < 4096 \<longrightarrow> sint (WaveformCalculator ! 0 ! phase) = 4095"
    by (simp add: WaveformCalculator_nth wf_entry_sint)
  from a b c d show ?thesis by (intro conjI)
qed

theorem golden_values_witness:
  "(1234::nat) < 4096 \<and> sint (WaveformCalculator ! 0 ! 1234) = 4095 \<and>
   sint (WaveformCalculator ! 1 ! 2048) = 4094"
  using golden_values [of 1234] by simp

text \<open>
  C5 as stated fails: the triangle value at phase 2048 is
  \<open>(2048 XOR 0xFFF) << 1 = 2047 << 1 = 4094\<close>, not 8190.
\<close>

theorem triangle_2048_not_8190:
  "sint (WaveformCalculator ! 1 ! 2048) \<noteq> 8190"
proof -
  have "sint (WaveformCalculator ! 1 ! 2048) = 4094"
    by (simp only: WaveformCalculator_nth wf_entry_sint; simp add: bit_Suc_0_iff)
  then show ?thesis by simp
qed

text \<open>
  C6. For every \<open>i\<close> in \<open>1..12\<close> the \<^verbatim>\<open>int\<close> computations \<open>-i\<close> and \<open>i*i\<close> do not
  overflow, so in every float arithmetic the exponential function returns
  \<open>pow(distance, -i)\<close>, the linear one \<open>1 / (1 + i * distance)\<close> and the quadratic one
  \<open>1 / (1 + (i*i) * distance)\<close>; in exact arithmetic, for a positive distance, these are
  \<open>distance\<close> to the power \<open>-i\<close> (that is \<open>1 / distance ^ i\<close>), \<open>1 / (1 + i * distance)\<close>
  and \<open>1 / (1 + i\<^sup>2 * distance)\<close>.
\<close>

theorem distance_functions:
  "1 \<le> i \<and> i \<le> 12 \<longrightarrow>
     exponentialDistance A distance i = fpow A distance (- i) \<and>
     linearDistance A distance i =
       fdiv A (flit A 1) (fadd A (flit A 1) (fmul A (fof_int A i) distance)) \<and>
     quadraticDistance A distance i =
       fdiv A (flit A 1) (fadd A (flit A 1) (fmul A (fof_int A (i * i)) distance)) \<and>
     (0 < q \<longrightarrow>
        exponentialDistance exact_ops q i = q powi (- i) \<and>
        exponentialDistance exact_ops q i = 1 / q ^ nat i \<and>
        linearDistance exact_ops q i = 1 / (1 + of_int i * q) \<and>
        quadraticDistance exact_ops q i = 1 / (1 + (of_int i)\<^sup>2 * q))"
proof (intro impI)
  assume i: "1 \<le> i \<and> i \<le> 12"
  have n: "int32 (- i) = - i"
    using i by (intro int32_small) simp_all
  have u: "i * i \<le> 12 * 12" using i by (intro mult_mono) simp_all
  have l: "0 \<le> i * i" by simp
  have s: "int32 (i * i) = i * i"
  proof (rule int32_small)
    have "(- (2 ^ 31) :: int) \<le> 0" by simp
    then show "- (2 ^ 31) \<le> i * i" using l by (rule order_trans)
    have "(12 * 12 :: int) < 2 ^ 31" by simp
    with u show "i * i < 2 ^ 31" by (rule le_less_trans)
  qed
  have e: "exponentialDistance A distance i = fpow A distance (- i)" for A :: "'x float_ops" and distance
    by (simp add: exponentialDistance_def n)
  have qd: "quadraticDistance A distance i =
       fdiv A (flit A 1) (fadd A (flit A 1) (fmul A (fof_int A (i * i)) distance))"
       for A :: "'x float_ops" and distance
    by (simp add: quadraticDistance_def s)
  have p: "q powi (- i) = 1 / q ^ nat i"
    using i by (simp add: power_int_def field_simps)
  have x: "0 < q \<longrightarrow>
        exponentialDistance exact_ops q i = q powi (- i) \<and>
        exponentialDistance exact_ops q i = 1 / q ^ nat i \<and>
        linearDistance exact_ops q i = 1 / (1 + of_int i * q) \<and>
        quadraticDistance exact_ops q i = 1 / (1 + (of_int i)\<^sup>2 * q)"
    using p by (simp add: e qd linearDistance_def) (simp add: exact_ops_def power2_eq_square)
  show "exponentialDistance A distance i = fpow A distance (- i) \<and>
     linearDistance A distance i =
       fdiv A (flit A 1) (fadd A (flit A 1) (fmul A (fof_int A i) distance)) \<and>
     quadraticDistance A distance i =
       fdiv A (flit A 1) (fadd A (flit A 1) (fmul A (fof_int A (i * i)) distance)) \<and>
     (0 < q \<longrightarrow>
        exponentialDistance exact_ops q i = q powi (- i) \<and>
        exponentialDistance exact_ops q i = 1 / q ^ nat i \<and>
        linearDistance exact_ops q i = 1 / (1 + of_int i * q) \<and>
        quadraticDistance exact_ops q i = 1 / (1 + (of_int i)\<^sup>2 * q))"
    using x by (simp only: e qd linearDistance_def; simp)
qed

text \<open>C6 at distance 2 and \<open>i = 3\<close>, in exact arithmetic.\<close>

theorem distance_functions_witness:
  "(1::int) \<le> 3 \<and> (3::int) \<le> 12 \<and> (0::rat) < 2 \<and>
   exponentialDistance exact_ops 2 3 = 1 / 8 \<and>
   linearDistance exact_ops 2 3 = 1 / 7 \<and>
   quadraticDistance exact_ops 2 3 = 1 / 19"
  using distance_functions [where i = 3 and q = 2 and A = exact_ops and distance = 2]
  by simp

text \<open>
  C2. For every model and variance class, a second call of \<open>buildPulldownTable\<close>
  returns the same reference as the first and leaves the cache as the first call left
  it, so both references point to the same table; the second call does not depend on
  the arithmetic (it computes nothing). Whenever the selected parameter set is already
  a key of the cache, the call returns that entry and the cache unchanged.
\<close>

theorem buildPulldownTable_cached_twice:
  "fst (buildPulldownTable A' model cws (snd (buildPulldownTable A model cws c))) =
     fst (buildPulldownTable A model cws c) \<and>
   snd (buildPulldownTable A' model cws (snd (buildPulldownTable A model cws c))) =
     snd (buildPulldownTable A model cws c) \<and>
   table_at (buildPulldownTable A' model cws (snd (buildPulldownTable A model cws c))) =
     table_at (buildPulldownTable A model cws c) \<and>
   (\<exists>t. table_at (buildPulldownTable A model cws c) = Some t) \<and>
   (c (select_cfgArray model cws) = Some u \<longrightarrow>
      buildPulldownTable A model cws c = (select_cfgArray model cws, c) \<and>
      table_at (buildPulldownTable A model cws c) = Some u)"
proof -
  have again: "buildPulldownTable A' model cws (snd (buildPulldownTable A model cws c)) =
     buildPulldownTable A model cws c"
    by (rule buildPulldownTable_again)
  have hit: "c (select_cfgArray model cws) = Some u \<longrightarrow>
      buildPulldownTable A model cws c = (select_cfgArray model cws, c) \<and>
      table_at (buildPulldownTable A model cws c) = Some u"
    by (simp add: buildPulldownTable_hit table_at_def)
  show ?thesis
    unfolding again using hit table_at_Some [of A model cws c] by (intro conjI refl)
qed

text \<open>
  C2 on the cache the first call for (6581, AVERAGE) leaves behind: it holds the table
  built from \<open>configAverage[0]\<close> under that row's key, and the next call returns this
  key, this table and the same cache.
\<close>

theorem buildPulldownTable_cached_twice_witness:
  "snd (buildPulldownTable exact_ops MOS6581 AVERAGE Map.empty) (select_cfgArray MOS6581 AVERAGE) =
     Some (build_pdTable exact_ops (configAverage exact_ops ! 0)) \<and>
   buildPulldownTable exact_ops MOS6581 AVERAGE
       (snd (buildPulldownTable exact_ops MOS6581 AVERAGE Map.empty)) =
     (configAverage_row 0, snd (buildPulldownTable exact_ops MOS6581 AVERAGE Map.empty)) \<and>
   table_at (buildPulldownTable exact_ops MOS6581 AVERAGE
       (snd (buildPulldownTable exact_ops MOS6581 AVERAGE Map.empty))) =
     Some (build_pdTable exact_ops (configAverage exact_ops ! 0))"
proof -
  let ?c = "snd (buildPulldownTable exact_ops MOS6581 AVERAGE Map.empty)"
  let ?u = "build_pdTable exact_ops (configAverage exact_ops ! 0)"
  have s: "select_cfgArray MOS6581 AVERAGE = configAverage_row 0"
    by (simp add: select_cfgArray_def)
  have k: "?c (select_cfgArray MOS6581 AVERAGE) = Some ?u"
    by (simp add: buildPulldownTable_miss s)
  have "buildPulldownTable exact_ops MOS6581 AVERAGE ?c = (select_cfgArray MOS6581 AVERAGE, ?c) \<and>
        table_at (buildPulldownTable exact_ops MOS6581 AVERAGE ?c) = Some ?u"
    using buildPulldownTable_cached_twice [where A = exact_ops and A' = exact_ops and model = MOS6581
      and cws = AVERAGE and c = ?c and u = ?u] k
    by blast
  then have a: "buildPulldownTable exact_ops MOS6581 AVERAGE ?c = (select_cfgArray MOS6581 AVERAGE, ?c)"
    and b: "table_at (buildPulldownTable exact_ops MOS6581 AVERAGE ?c) = Some ?u"
    by blast+
  from k a [unfolded s] b show ?thesis by (intro conjI)
qed



text \<open>
  C7. In every state of the cache the program can reach, for every model, variance
  class and phase in \<open>0..4095\<close>, the table \<open>buildPulldownTable\<close> returns has its
  pulse+triangle+sawtooth row (row 3) in \<open>[0, 4095]\<close>; every entry of the basic sawtooth
  row lies in \<open>[0, 4095]\<close> and every entry of the basic triangle row in \<open>[0, 8190]\<close>.
\<close>

theorem table_ranges:
  "reachable A c \<and> phase < 4096 \<longrightarrow>
     (\<exists>t. table_at (buildPulldownTable A model cws c) = Some t \<and>
          0 \<le> sint (t ! 3 ! phase) \<and> sint (t ! 3 ! phase) \<le> 4095) \<and>
     0 \<le> sint (WaveformCalculator ! 2 ! phase) \<and> sint (WaveformCalculator ! 2 ! phase) \<le> 4095 \<and>
     0 \<le> sint (WaveformCalculator ! 1 ! phase) \<and> sint (WaveformCalculator ! 1 ! phase) \<le> 8190"
proof (intro impI)
  assume h: "reachable A c \<and> phase < 4096"
  then have p: "phase < 4096" and r: "reachable A c" by simp_all
  have pts: "\<exists>t. table_at (buildPulldownTable A model cws c) = Some t \<and>
          0 \<le> sint (t ! 3 ! phase) \<and> sint (t ! 3 ! phase) \<le> 4095"
    using r _ p by (rule built_table_range) simp
  have saw: "sint (WaveformCalculator ! 2 ! phase) = int phase"
    using p by (simp only: WaveformCalculator_nth wf_entry_sint; simp)
  have tri: "sint (WaveformCalculator ! 1 ! phase) =
       (if \<not> bit phase 11 then push_bit 1 (int phase) else push_bit 1 (int phase XOR 0xFFF))"
    using p by (simp only: WaveformCalculator_nth wf_entry_sint; simp)
  have t: "0 \<le> sint (WaveformCalculator ! 1 ! phase) \<and> sint (WaveformCalculator ! 1 ! phase) \<le> 8190"
    unfolding tri using xor_fff_bounds [OF p] p by (simp add: push_bit_eq_mult)
  show "(\<exists>t. table_at (buildPulldownTable A model cws c) = Some t \<and>
          0 \<le> sint (t ! 3 ! phase) \<and> sint (t ! 3 ! phase) \<le> 4095) \<and>
     0 \<le> sint (WaveformCalculator ! 2 ! phase) \<and> sint (WaveformCalculator ! 2 ! phase) \<le> 4095 \<and>
     0 \<le> sint (WaveformCalculator ! 1 ! phase) \<and> sint (WaveformCalculator ! 1 ! phase) \<le> 8190"
    using pts t p unfolding saw by simp
qed

theorem table_ranges_witness:
  "reachable exact_ops Map.empty \<and> (2048::nat) < 4096 \<and>
     (\<exists>t. table_at (buildPulldownTable exact_ops MOS6581 STRONG Map.empty) = Some t \<and>
          0 \<le> sint (t ! 3 ! 2048) \<and> sint (t ! 3 ! 2048) \<le> 4095) \<and>
     sint (WaveformCalculator ! 2 ! 2048) \<le> 4095 \<and>
     sint (WaveformCalculator ! 1 ! 2048) \<le> 8190"
  using table_ranges [where A = exact_ops and c = Map.empty and phase = 2048 and model = MOS6581
      and cws = STRONG] reachable.initial [of exact_ops]
  by simp

text \<open>
  C10. For any distance table, \<open>topbit\<close>, \<open>pulsestrength\<close>, \<open>threshold\<close> and
  accumulator, the value \<open>calculatePulldown\<close> returns lies in \<open>[0, 4095]\<close> and is the
  value it returns for the low 12 bits of the accumulator; so every entry of every one
  of the five rows of a table \<open>buildPulldownTable\<close> returns, in every reachable state of
  the cache, lies in \<open>[0, 4095]\<close>.
\<close>

theorem calculatePulldown_12_bits:
  "0 \<le> sint (calculatePulldown A distancetable tb ps thr accumulator) \<and>
   sint (calculatePulldown A distancetable tb ps thr accumulator) \<le> 4095 \<and>
   calculatePulldown A distancetable tb ps thr accumulator =
     calculatePulldown A distancetable tb ps thr (accumulator AND 0xFFF) \<and>
   (reachable A c \<and> wav < 5 \<and> idx < 4096 \<longrightarrow>
      (\<exists>t. table_at (buildPulldownTable A model cws c) = Some t \<and>
           0 \<le> sint (t ! wav ! idx) \<and> sint (t ! wav ! idx) \<le> 4095))"
proof -
  have r: "0 \<le> sint (calculatePulldown A distancetable tb ps thr accumulator) \<and>
   sint (calculatePulldown A distancetable tb ps thr accumulator) \<le> 4095"
    by (rule calculatePulldown_range)
  have l: "calculatePulldown A distancetable tb ps thr accumulator =
     calculatePulldown A distancetable tb ps thr (accumulator AND 0xFFF)"
    by (rule calculatePulldown_low12 [symmetric])
  have t: "reachable A c \<and> wav < 5 \<and> idx < 4096 \<longrightarrow>
      (\<exists>t. table_at (buildPulldownTable A model cws c) = Some t \<and>
           0 \<le> sint (t ! wav ! idx) \<and> sint (t ! wav ! idx) \<le> 4095)"
    using built_table_range [of A c wav idx model cws] by blast
  from r l t show ?thesis by (intro conjI) simp_all
qed

theorem calculatePulldown_12_bits_witness:
  "reachable exact_ops Map.empty \<and> (4::nat) < 5 \<and> (4095::nat) < 4096 \<and>
   (\<exists>t. table_at (buildPulldownTable exact_ops MOS8580 WEAK Map.empty) = Some t \<and>
           0 \<le> sint (t ! 4 ! 4095) \<and> sint (t ! 4 ! 4095) \<le> 4095) \<and>
   calculatePulldown exact_ops (replicate 25 1) 1 0 (1 / 2) 0xFFFFFABC =
     calculatePulldown exact_ops (replicate 25 1) 1 0 (1 / 2) 0xABC"
  using calculatePulldown_12_bits [where A = exact_ops and c = Map.empty and wav = 4 and idx = 4095
      and model = MOS8580 and cws = WEAK and distancetable = "replicate 25 1" and tb = 1 and ps = 0
      and thr = "1 / 2" and accumulator = "0xFFFFFABC"] reachable.initial [of exact_ops]
  by simp

end
